theory Spec2Isabelle
  imports Complex_Main
begin

section \<open>Shared vocabulary\<close>

text \<open>
  The capability module \<^verbatim>\<open>capabilities/index.ts\<close> registers two bindings: the
  WebApp binding (Mutate, Validate, Reconcile) and the Pod binding (Mutate, Validate).
  JavaScript's \<^verbatim>\<open>undefined\<close> is modelled by \<open>None\<close>; an exception thrown by a
  handler is a value of \<open>error\<close>.
\<close>

datatype error = TypeError | DeployError | EventError

text \<open>
  The admission answer of a Validate callback: \<^verbatim>\<open>Approve()\<close> or
  \<^verbatim>\<open>Deny(message, statusCode, warnings)\<close>, the warnings being absent when the call
  passes two arguments only.
\<close>

datatype decision = Approve | Deny string nat "string list option"

section \<open>Pod security path\<close>

record Capabilities =
  add :: "string list option"

record SecurityContext =
  allowPrivilegeEscalation :: "bool option"
  privileged :: "bool option"
  capabilities :: "Capabilities option"

record Container =
  cname :: string
  securityContext :: "SecurityContext option"

text \<open>The object literal \<^verbatim>\<open>{}\<close> assigned to a container that has no securityContext.\<close>

definition empty_securityContext :: SecurityContext where
  "empty_securityContext =
     \<lparr>allowPrivilegeEscalation = None, privileged = None, capabilities = None\<rparr>"

text \<open>
  \<^verbatim>\<open>capabilities?.add?.includes("CAP_SYS_ADMIN")\<close>: \<open>None\<close> is the \<^verbatim>\<open>undefined\<close>
  of a short-circuited chain, \<open>Some b\<close> the boolean \<^verbatim>\<open>includes\<close> returns.
\<close>

definition add_includes_CAP_SYS_ADMIN :: "SecurityContext \<Rightarrow> bool option" where
  "add_includes_CAP_SYS_ADMIN sc =
     (case capabilities sc of
        None \<Rightarrow> None
      | Some caps \<Rightarrow>
          (case add caps of
             None \<Rightarrow> None
           | Some xs \<Rightarrow> Some (''CAP_SYS_ADMIN'' \<in> set xs)))"

text \<open>JavaScript truthiness of a value that is a boolean or \<^verbatim>\<open>undefined\<close>.\<close>

definition truthy :: "bool option \<Rightarrow> bool" where
  "truthy v = (case v of None \<Rightarrow> False | Some b \<Rightarrow> b)"

text \<open>
  The three entries of \<^verbatim>\<open>mutateCriteria\<close>, read on the securityContext the loop body
  has just defaulted.
\<close>

definition mutateCriteria :: "SecurityContext \<Rightarrow> bool list" where
  "mutateCriteria sc =
     [allowPrivilegeEscalation sc = None,
      \<not> truthy (privileged sc),
      \<not> truthy (add_includes_CAP_SYS_ADMIN sc)]"

text \<open>
  One iteration of the loop of the Pod Mutate callback. The container object is updated
  in place; the model returns the updated container.
\<close>

definition mutate_container :: "Container \<Rightarrow> Container" where
  "mutate_container c =
     (let sc = (case securityContext c of None \<Rightarrow> empty_securityContext | Some s \<Rightarrow> s) in
      if list_all (\<lambda>priv. priv = True) (mutateCriteria sc)
      then c\<lparr>securityContext := Some (sc\<lparr>allowPrivilegeEscalation := Some False\<rparr>)\<rparr>
      else c\<lparr>securityContext := Some sc\<rparr>)"

text \<open>
  A pod request is represented by the array that the SDK helper \<^verbatim>\<open>containers(request)\<close>
  returns: the request's own container objects, in order. The Mutate callback walks that
  array and changes nothing else of the request.
\<close>

definition Pod_Mutate :: "Container list \<Rightarrow> Container list" where
  "Pod_Mutate cs = map mutate_container cs"

text \<open>
  The filter predicate of the Pod Validate callback,
  \<^verbatim>\<open>(c.securityContext.allowPrivilegeEscalation ?? true) || c.securityContext.privileged\<close>,
  as the truthiness of its value. Reading a property of an undefined securityContext
  throws.
\<close>

definition violation :: "Container \<Rightarrow> error + bool" where
  "violation c =
     (case securityContext c of
        None \<Rightarrow> Inl TypeError
      | Some sc \<Rightarrow>
          Inr ((case allowPrivilegeEscalation sc of None \<Rightarrow> True | Some b \<Rightarrow> b)
               \<or> truthy (privileged sc)))"

text \<open>\<^verbatim>\<open>Array.prototype.filter\<close> with a callback that may throw: the first throw ends it.\<close>

fun filter_throwing :: "('a \<Rightarrow> error + bool) \<Rightarrow> 'a list \<Rightarrow> error + 'a list" where
  "filter_throwing p [] = Inr []"
| "filter_throwing p (x # xs) =
     (case p x of
        Inl e \<Rightarrow> Inl e
      | Inr b \<Rightarrow>
          (case filter_throwing p xs of
             Inl e \<Rightarrow> Inl e
           | Inr ys \<Rightarrow> Inr (if b then x # ys else ys)))"

definition Pod_Validate :: "Container list \<Rightarrow> error + decision" where
  "Pod_Validate cs =
     (case filter_throwing violation cs of
        Inl e \<Rightarrow> Inl e
      | Inr violations \<Rightarrow>
          (if length violations \<noteq> 0
           then Inr (Deny ''Privilege escalation is disallowed'' 403 None)
           else Inr Approve))"

section \<open>WebApp resource\<close>

text \<open>
  A Condition of the ledger. \<open>observedGeneration\<close> and \<open>lastTransitionTime\<close> are
  optional because the code itself builds Conditions without them: the default object
  \<^verbatim>\<open>{status: "", reason: ""}\<close> of Reconcile, and the observedGeneration of the Failed
  entry, which is read through an optional chain. Timestamps are abstract clock values.
\<close>

record Condition =
  observedGeneration :: "int option"
  lastTransitionTime :: "nat option"
  reason :: string
  status :: string

text \<open>\<^verbatim>\<open>WebAppStatus\<close> of \<^verbatim>\<open>api/v1alpha1/webapp_types.ts\<close>: \<^verbatim>\<open>conditions?\<close> is optional.\<close>

record Status =
  conditions :: "Condition list option"

text \<open>
  The spec of a WebApp. The resource schema (\<^verbatim>\<open>k8s/apps/crds.yaml\<close>) makes the three
  fields required inside \<^verbatim>\<open>spec\<close> and gives their types, so a spec that is present has
  all three. It does not require \<^verbatim>\<open>spec\<close> itself, so a WebApp may come without one.
  \<open>replicas\<close> is a JSON number; the code only compares it with 1.
\<close>

record WebAppSpec =
  language :: string
  replicas :: real
  theme :: string

text \<open>
  Object metadata, as far as the handlers read or write it. The code reads
  \<^verbatim>\<open>instance.metadata?.generation\<close>, so the metadata object and the generation may each
  be missing. An absent annotations object and an empty one are not told apart.
\<close>

record ObjectMeta =
  name :: "string option"
  namespace :: "string option"
  generation :: "int option"
  annotations :: "string \<rightharpoonup> string"

record WebApp =
  metadata :: "ObjectMeta option"
  spec :: "WebAppSpec option"
  wa_status :: "Status option"

text \<open>
  JavaScript array indexing \<^verbatim>\<open>xs[k]\<close> for an integer \<open>k\<close>: \<^verbatim>\<open>undefined\<close> outside
  \<open>0 \<le> k < length\<close>, in particular at \<open>k = -1\<close> and at \<open>k = length\<close>.
\<close>

definition js_index :: "'a list \<Rightarrow> int \<Rightarrow> 'a option" where
  "js_index xs k = (if 0 \<le> k \<and> k < int (length xs) then Some (xs ! nat k) else None)"

section \<open>WebApp admission path\<close>

text \<open>
  \<^verbatim>\<open>const conditions = wa.Raw.status?.conditions || [];\<close> of Mutate and Validate, and
  \<^verbatim>\<open>getConditions\<close> of Reconcile, which has the same body.
\<close>

definition getConditions :: "WebApp \<Rightarrow> Condition list" where
  "getConditions wa =
     (case wa_status wa of
        None \<Rightarrow> []
      | Some st \<Rightarrow> (case conditions st of None \<Rightarrow> [] | Some cs \<Rightarrow> cs))"

text \<open>\<^verbatim>\<open>conditions[conditions.length - 1]?.status === "Pending"\<close>\<close>

definition last_status_is_Pending :: "Condition list \<Rightarrow> bool" where
  "last_status_is_Pending cs =
     (case js_index cs (int (length cs) - 1) of
        None \<Rightarrow> False
      | Some c \<Rightarrow> status c = ''Pending'')"

text \<open>
  \<^verbatim>\<open>SetAnnotation\<close> of the admission SDK: it creates the metadata object when it is
  missing and stores the value under the key.
\<close>

definition SetAnnotation :: "string \<Rightarrow> string \<Rightarrow> WebApp \<Rightarrow> WebApp" where
  "SetAnnotation k v wa =
     (let m = (case metadata wa of
                 None \<Rightarrow> \<lparr>name = None, namespace = None, generation = None,
                           annotations = Map.empty\<rparr>
               | Some m0 \<Rightarrow> m0)
      in wa\<lparr>metadata := Some (m\<lparr>annotations := (annotations m)(k \<mapsto> v)\<rparr>)\<rparr>)"

text \<open>
  The WebApp Mutate callback. \<open>now\<close> is the string \<^verbatim>\<open>new Date().toISOString()\<close>
  yields at the call. The result is the request object after the callback.
\<close>

definition WebApp_Mutate :: "string \<Rightarrow> WebApp \<Rightarrow> WebApp" where
  "WebApp_Mutate now wa =
     (let conds = getConditions wa in
      if last_status_is_Pending conds then wa
      else SetAnnotation ''pepr.dev/latest-admission-pass'' now wa)"

text \<open>
  The three warning texts. Each ends with an apostrophe, written \<open>CHR 0x27\<close> because a
  string literal cannot end with one.
\<close>

definition language_warning :: string where
  "language_warning = ''language must be either 'english' or 'spanish'' @ [CHR 0x27]"

definition replicas_warning :: string where
  "replicas_warning = ''replicas must be greater than 0''"

definition theme_warning :: string where
  "theme_warning = ''theme must be either 'dark' or 'light'' @ [CHR 0x27]"

text \<open>The three checks of the WebApp Validate callback, each pushing one warning.\<close>

definition spec_warnings :: "WebAppSpec \<Rightarrow> string list" where
  "spec_warnings sp =
     (if language sp \<notin> set [''english'', ''spanish''] then [language_warning] else [])
     @ (if replicas sp < 1 then [replicas_warning] else [])
     @ (if theme sp \<notin> set [''dark'', ''light''] then [theme_warning] else [])"

text \<open>
  The WebApp Validate callback. After the Pending check it destructures
  \<^verbatim>\<open>wa.Raw.spec\<close> (line 48), which throws when the spec is undefined.
\<close>

definition WebApp_Validate :: "WebApp \<Rightarrow> error + decision" where
  "WebApp_Validate wa =
     (let conds = getConditions wa in
      if last_status_is_Pending conds then Inr Approve
      else
        (case spec wa of
           None \<Rightarrow> Inl TypeError
         | Some sp \<Rightarrow>
             (let warnings = spec_warnings sp in
              if length warnings > 0
              then Inr (Deny ''Spec field is incorrect'' 422 (Some warnings))
              else Inr Approve)))"

section \<open>Reconciliation\<close>

text \<open>
  What a run of the Reconcile callback does to the outside, in order: the status patches
  and events it issues (with the name and namespace it passes), the call of the resource
  generator, and its log lines.
\<close>

datatype effect =
    PatchStatus "string option" "string option" "Status option"
  | WriteEvent "string option" string
  | DeployCall
  | LogDebug
  | LogError

text \<open>
  The outside world of one run: the value \<^verbatim>\<open>new Date()\<close> has when the Condition of the
  given status is built, whether the resource generator succeeds, whether
  \<^verbatim>\<open>PatchStatus\<close> accepts a given status, and whether the event with a given message can
  be written.
\<close>

record env =
  clock :: "string \<Rightarrow> nat"
  deploy_ok :: bool
  patch_ok :: "Status option \<Rightarrow> bool"
  event_ok :: "string \<Rightarrow> bool"

text \<open>
  The state of a run, and its result: the exception the callback is rejected with, if
  any; the instance object, which the run may update in place; the ledger, that is the
  local array \<^verbatim>\<open>conditions\<close> once the run has bound it and the instance's own Conditions
  before; the effects so far.
\<close>

record run =
  outcome :: "error option"
  inst :: WebApp
  ledger :: "Condition list"
  trace :: "effect list"

text \<open>Line 69: \<^verbatim>\<open>instance.metadata?.generation\<close>.\<close>

definition read_generation :: "WebApp \<Rightarrow> int option" where
  "read_generation i = (case metadata i of None \<Rightarrow> None | Some m \<Rightarrow> generation m)"

text \<open>
  Lines 71-72:
  \<^verbatim>\<open>instance.status?.conditions?.[instance.status?.conditions.length - 1].observedGeneration\<close>.
  The chain stops at a missing status or a missing array; the element it indexes is
  not guarded.
\<close>

definition read_observedGeneration :: "WebApp \<Rightarrow> error + int option" where
  "read_observedGeneration i =
     (case wa_status i of
        None \<Rightarrow> Inr None
      | Some st \<Rightarrow>
          (case conditions st of
             None \<Rightarrow> Inr None
           | Some cs \<Rightarrow>
               (case js_index cs (int (length cs) - 1) of
                  None \<Rightarrow> Inl TypeError
                | Some c \<Rightarrow> Inr (observedGeneration c))))"

text \<open>The default object \<^verbatim>\<open>{ status: "", reason: "" }\<close>.\<close>

definition empty_condition :: Condition where
  "empty_condition =
     \<lparr>observedGeneration = None, lastTransitionTime = None, reason = '''', status = ''''\<rparr>"

text \<open>
  Lines 75-78:
  \<^verbatim>\<open>instance.status?.conditions[instance.status?.conditions.length - 1] || {...}\<close>.
  Here the chain stops at a missing status only; a missing array is read.
\<close>

definition read_latestCondition :: "WebApp \<Rightarrow> error + Condition" where
  "read_latestCondition i =
     (case wa_status i of
        None \<Rightarrow> Inr empty_condition
      | Some st \<Rightarrow>
          (case conditions st of
             None \<Rightarrow> Inl TypeError
           | Some cs \<Rightarrow>
               (case js_index cs (int (length cs) - 1) of
                  None \<Rightarrow> Inr empty_condition
                | Some c \<Rightarrow> Inr c)))"

text \<open>
  \<^verbatim>\<open>conditions.push(c)\<close>. When the instance has a conditions array, \<^verbatim>\<open>getConditions\<close>
  returned that very array, so the push shows in the instance; otherwise the local array
  is a new one and the instance stays as it is.
\<close>

definition push :: "Condition \<Rightarrow> run \<Rightarrow> run" where
  "push c s =
     s\<lparr>ledger := ledger s @ [c],
       inst :=
         (case wa_status (inst s) of
            None \<Rightarrow> inst s
          | Some st \<Rightarrow>
              (case conditions st of
                 None \<Rightarrow> inst s
               | Some cs \<Rightarrow> (inst s)\<lparr>wa_status := Some (st\<lparr>conditions := Some (cs @ [c])\<rparr>)\<rparr>))\<rparr>"

text \<open>
  \<^verbatim>\<open>updateStatus(instance, status)\<close>: everything happens inside its try block, so a
  missing metadata object and a refused patch both end in a log line.
\<close>

definition updateStatus :: "env \<Rightarrow> Status option \<Rightarrow> run \<Rightarrow> run" where
  "updateStatus e st s =
     (case metadata (inst s) of
        None \<Rightarrow> s\<lparr>trace := trace s @ [LogError]\<rparr>
      | Some m \<Rightarrow>
          (if patch_ok e st
           then s\<lparr>trace := trace s @ [PatchStatus (name m) (namespace m) st]\<rparr>
           else s\<lparr>trace := trace s @ [PatchStatus (name m) (namespace m) st, LogError]\<rparr>))"

text \<open>
  \<^verbatim>\<open>await writeEvent(instance, {message}, {..., reportingComponent: instance.metadata.name, ...})\<close>:
  building the arguments throws when the metadata object is missing; the call itself
  may throw.
\<close>

definition writeEvent :: "env \<Rightarrow> string \<Rightarrow> run \<Rightarrow> run" where
  "writeEvent e msg s =
     (case metadata (inst s) of
        None \<Rightarrow> s\<lparr>outcome := Some TypeError\<rparr>
      | Some m \<Rightarrow>
          s\<lparr>trace := trace s @ [WriteEvent (name m) msg],
            outcome := (if event_ok e msg then None else Some EventError)\<rparr>)"

text \<open>
  Modelled from the spec: \<^verbatim>\<open>Deploy\<close> of \<^verbatim>\<open>controller/generators\<close> is not among the
  sources. It is the invocation of the resource generator, which succeeds or fails with
  an error and leaves the instance alone.
\<close>

definition Deploy :: "env \<Rightarrow> run \<Rightarrow> run" where
  "Deploy e s =
     s\<lparr>trace := trace s @ [DeployCall],
       outcome := (if deploy_ok e then None else Some DeployError)\<rparr>"

text \<open>
  The three Conditions the callback builds (lines 94-99, 120-125 and 145-151), for the
  generation \<open>g\<close> read at line 69 and, for the Failed one, the observedGeneration read
  at lines 146-147.
\<close>

definition Pending_condition :: "env \<Rightarrow> int option \<Rightarrow> Condition" where
  "Pending_condition e g =
     \<lparr>observedGeneration = g, lastTransitionTime = Some (clock e ''Pending''),
      reason = ''Processing'', status = ''Pending''\<rparr>"

definition Ready_condition :: "env \<Rightarrow> int option \<Rightarrow> Condition" where
  "Ready_condition e g =
     \<lparr>observedGeneration = g, lastTransitionTime = Some (clock e ''Ready''),
      reason = ''Reconciled'', status = ''Ready''\<rparr>"

definition Failed_condition :: "env \<Rightarrow> int option \<Rightarrow> Condition" where
  "Failed_condition e og =
     \<lparr>observedGeneration = og, lastTransitionTime = Some (clock e ''Failed''),
      reason = ''Could not reconcile'', status = ''Failed''\<rparr>"

text \<open>
  Lines 92-113: bind \<^verbatim>\<open>conditions\<close>, push the Pending Condition, patch the status
  with \<^verbatim>\<open>{ conditions }\<close>, write the event.
\<close>

definition pending_block :: "env \<Rightarrow> int option \<Rightarrow> WebApp \<Rightarrow> run" where
  "pending_block e g i =
     (let s0 = \<lparr>outcome = None, inst = i, ledger = getConditions i, trace = []\<rparr>;
          s1 = push (Pending_condition e g) s0;
          s2 = updateStatus e (Some \<lparr>conditions = Some (ledger s1)\<rparr>) s1
      in writeEvent e ''Pending'' s2)"

text \<open>Lines 116-140, the body of the try block.\<close>

definition try_block :: "env \<Rightarrow> int option \<Rightarrow> run \<Rightarrow> run" where
  "try_block e g s =
     (let s1 = Deploy e s in
      if outcome s1 \<noteq> None then s1
      else
        (let s2 = push (Ready_condition e g) s1;
             s3 = updateStatus e (Some \<lparr>conditions = Some (ledger s2)\<rparr>) s2
         in writeEvent e ''Reconciled'' s3))"

text \<open>
  Lines 146-147:
  \<^verbatim>\<open>instance.status?.conditions?.[instance.status?.conditions?.length].observedGeneration\<close>.
\<close>

definition read_failed_observedGeneration :: "WebApp \<Rightarrow> error + int option" where
  "read_failed_observedGeneration i =
     (case wa_status i of
        None \<Rightarrow> Inr None
      | Some st \<Rightarrow>
          (case conditions st of
             None \<Rightarrow> Inr None
           | Some cs \<Rightarrow>
               (case js_index cs (int (length cs)) of
                  None \<Rightarrow> Inl TypeError
                | Some c \<Rightarrow> Inr (observedGeneration c))))"

text \<open>
  Lines 141-167, the catch block, entered with the exception cleared. The argument of
  \<^verbatim>\<open>push\<close> is evaluated first; when that throws, nothing is pushed.
\<close>

definition catch_block :: "env \<Rightarrow> run \<Rightarrow> run" where
  "catch_block e s =
     (let s1 = s\<lparr>outcome := None, trace := trace s @ [LogError]\<rparr> in
      case read_failed_observedGeneration (inst s1) of
        Inl err \<Rightarrow> s1\<lparr>outcome := Some err\<rparr>
      | Inr og \<Rightarrow>
          (let s2 = push (Failed_condition e og) s1;
               s3 = updateStatus e (wa_status (inst s2)) s2
           in writeEvent e ''Failed'' s3))"

text \<open>The Reconcile callback, lines 67-168.\<close>

definition Reconcile :: "env \<Rightarrow> WebApp \<Rightarrow> run" where
  "Reconcile e i =
     (let g = read_generation i in
      case read_observedGeneration i of
        Inl err \<Rightarrow> \<lparr>outcome = Some err, inst = i, ledger = getConditions i, trace = []\<rparr>
      | Inr og \<Rightarrow>
          (case read_latestCondition i of
             Inl err \<Rightarrow> \<lparr>outcome = Some err, inst = i, ledger = getConditions i, trace = []\<rparr>
           | Inr latestCondition \<Rightarrow>
               (let isPending = (status latestCondition = ''Pending''
                                 \<or> reason latestCondition = ''Processing'');
                    shouldDeploy = (g \<noteq> og \<and> \<not> isPending)
                in
                if \<not> shouldDeploy
                then \<lparr>outcome = None, inst = i, ledger = getConditions i, trace = [LogDebug]\<rparr>
                else
                  (let s = pending_block e g i in
                   if outcome s \<noteq> None then s
                   else
                     (let t = try_block e g s in
                      if outcome t = None then t else catch_block e t)))))"

section \<open>Vocabulary of the properties\<close>

text \<open>
  What a container requests, read off the pod as submitted: its
  allowPrivilegeEscalation field (unset also when it has no securityContext), whether
  it is privileged, and whether it adds the capability CAP_SYS_ADMIN.
\<close>

definition requested_allowPrivilegeEscalation :: "Container \<Rightarrow> bool option" where
  "requested_allowPrivilegeEscalation c =
     (case securityContext c of None \<Rightarrow> None | Some sc \<Rightarrow> allowPrivilegeEscalation sc)"

definition requests_privileged :: "Container \<Rightarrow> bool" where
  "requests_privileged c =
     (case securityContext c of None \<Rightarrow> False | Some sc \<Rightarrow> privileged sc = Some True)"

definition requests_capability_raise :: "Container \<Rightarrow> bool" where
  "requests_capability_raise c =
     (case securityContext c of
        None \<Rightarrow> False
      | Some sc \<Rightarrow>
          (case capabilities sc of
             None \<Rightarrow> False
           | Some caps \<Rightarrow>
               (case add caps of None \<Rightarrow> False | Some xs \<Rightarrow> ''CAP_SYS_ADMIN'' \<in> set xs)))"

text \<open>The calls a run made to the cluster and to the generator, without its log lines.\<close>

definition calls :: "run \<Rightarrow> effect list" where
  "calls r = filter (\<lambda>x. x \<noteq> LogError \<and> x \<noteq> LogDebug) (trace r)"

section \<open>Concrete requests and instances\<close>

definition plain_container :: Container where
  "plain_container = \<lparr>cname = ''app'', securityContext = None\<rparr>"

definition escalating_container :: Container where
  "escalating_container =
     \<lparr>cname = ''app'',
      securityContext = Some \<lparr>allowPrivilegeEscalation = Some True, privileged = None,
                              capabilities = None\<rparr>\<rparr>"

definition privileged_container :: Container where
  "privileged_container =
     \<lparr>cname = ''app'',
      securityContext = Some \<lparr>allowPrivilegeEscalation = None, privileged = Some True,
                              capabilities = None\<rparr>\<rparr>"

definition webapp_meta :: ObjectMeta where
  "webapp_meta =
     \<lparr>name = Some ''webapp-light-en'', namespace = Some ''webapps'', generation = Some 2,
      annotations = Map.empty\<rparr>"

definition invalid_spec :: WebAppSpec where
  "invalid_spec = \<lparr>language = ''french'', replicas = 0, theme = ''light''\<rparr>"

definition Ready_1 :: Condition where
  "Ready_1 =
     \<lparr>observedGeneration = Some 1, lastTransitionTime = Some 5, reason = ''Reconciled'',
      status = ''Ready''\<rparr>"

definition Pending_2 :: Condition where
  "Pending_2 =
     \<lparr>observedGeneration = Some 2, lastTransitionTime = Some 7, reason = ''Processing'',
      status = ''Pending''\<rparr>"

text \<open>Generation 2, last Condition Ready for generation 1.\<close>

definition instance_gen2 :: WebApp where
  "instance_gen2 =
     \<lparr>metadata = Some webapp_meta, spec = Some invalid_spec,
      wa_status = Some \<lparr>conditions = Some [Ready_1]\<rparr>\<rparr>"

text \<open>The same instance while its deployment is in flight.\<close>

definition instance_pending :: WebApp where
  "instance_pending =
     \<lparr>metadata = Some webapp_meta, spec = Some invalid_spec,
      wa_status = Some \<lparr>conditions = Some [Ready_1, Pending_2]\<rparr>\<rparr>"

text \<open>An instance whose status holds an empty conditions array.\<close>

definition instance_empty_ledger :: WebApp where
  "instance_empty_ledger =
     \<lparr>metadata = Some webapp_meta, spec = Some invalid_spec,
      wa_status = Some \<lparr>conditions = Some []\<rparr>\<rparr>"

text \<open>An instance the controller has not reconciled yet: no status.\<close>

definition instance_no_status :: WebApp where
  "instance_no_status =
     \<lparr>metadata = Some webapp_meta, spec = Some invalid_spec, wa_status = None\<rparr>"

text \<open>A WebApp submitted without a spec, which the resource schema admits.\<close>

definition instance_without_spec :: WebApp where
  "instance_without_spec =
     \<lparr>metadata = Some webapp_meta, spec = None, wa_status = None\<rparr>"

definition world_ok :: env where
  "world_ok =
     \<lparr>clock = (\<lambda>s. if s = ''Pending'' then 10 else 20), deploy_ok = True,
      patch_ok = (\<lambda>_. True), event_ok = (\<lambda>_. True)\<rparr>"

definition world_deploy_fails :: env where
  "world_deploy_fails =
     \<lparr>clock = (\<lambda>s. if s = ''Pending'' then 10 else 20), deploy_ok = False,
      patch_ok = (\<lambda>_. True), event_ok = (\<lambda>_. True)\<rparr>"

text \<open>
  The instance of generation 2 as a re-apply submits it after a successful cycle:
  admission has refreshed the annotation, and the status is the one of the last patch.
\<close>

definition instance_reapplied :: WebApp where
  "instance_reapplied =
     (WebApp_Mutate ''2025-06-01T12:00:00.000Z'' instance_gen2)
       \<lparr>wa_status := Some \<lparr>conditions = Some [Ready_1, Pending_condition world_ok (Some 2),
                                                Ready_condition world_ok (Some 2)]\<rparr>\<rparr>"

section \<open>Pod security path: what Mutate does and what Validate answers\<close>

lemma mutate_container_twice: "mutate_container (mutate_container c) = mutate_container c"
  by (cases "securityContext c")
     (simp_all add: mutate_container_def mutateCriteria_def empty_securityContext_def Let_def)

text \<open>
  The loop body in terms of what the container requested: either the default is
  supplied, or the container comes out as it went in.
\<close>

lemma mutate_container_cases:
  "mutate_container c =
     (if requested_allowPrivilegeEscalation c = None \<and> \<not> requests_privileged c
         \<and> \<not> requests_capability_raise c
      then c\<lparr>securityContext :=
               Some ((case securityContext c of None \<Rightarrow> empty_securityContext | Some sc \<Rightarrow> sc)
                       \<lparr>allowPrivilegeEscalation := Some False\<rparr>)\<rparr>
      else c)"
proof (cases "securityContext c")
  case None
  then show ?thesis
    by (simp add: mutate_container_def mutateCriteria_def empty_securityContext_def
        requested_allowPrivilegeEscalation_def requests_privileged_def
        requests_capability_raise_def add_includes_CAP_SYS_ADMIN_def truthy_def)
next
  case (Some sc)
  then show ?thesis
    by (auto simp add: mutate_container_def mutateCriteria_def
        requested_allowPrivilegeEscalation_def requests_privileged_def
        requests_capability_raise_def add_includes_CAP_SYS_ADMIN_def truthy_def
        split: option.splits)
qed

lemma mutate_container_post:
  "requested_allowPrivilegeEscalation (mutate_container c) = Some False
   \<or> (requested_allowPrivilegeEscalation (mutate_container c) = Some True
       \<and> requested_allowPrivilegeEscalation c = Some True)
   \<or> requests_privileged (mutate_container c)
   \<or> requests_capability_raise (mutate_container c)"
  by (cases "requested_allowPrivilegeEscalation c")
     (auto simp add: mutate_container_cases requested_allowPrivilegeEscalation_def)

text \<open>Whether Validate counts a container that Mutate has processed.\<close>

lemma violation_mutate_container:
  "violation (mutate_container c) =
     Inr (requested_allowPrivilegeEscalation c = Some True \<or> requests_privileged c
          \<or> (requested_allowPrivilegeEscalation c = None \<and> requests_capability_raise c))"
proof (cases "securityContext c")
  case None
  then show ?thesis
    by (simp add: mutate_container_cases violation_def empty_securityContext_def
        requested_allowPrivilegeEscalation_def requests_privileged_def
        requests_capability_raise_def truthy_def)
next
  case (Some sc)
  then show ?thesis
    by (auto simp add: mutate_container_cases violation_def
        requested_allowPrivilegeEscalation_def requests_privileged_def
        requests_capability_raise_def truthy_def split: option.splits)
qed

lemma filter_throwing_total:
  "(\<And>x. x \<in> set xs \<Longrightarrow> p x = Inr (q x)) \<Longrightarrow> filter_throwing p xs = Inr (filter q xs)"
  by (induction xs) simp_all

text \<open>
  Validate on a pod as submitted: it throws as soon as one container has no
  securityContext, and decides as the policy says when every container has one.
\<close>

lemma Pod_Validate_throws:
  assumes "c \<in> set cs" and "securityContext c = None"
  shows "Pod_Validate cs = Inl TypeError"
proof -
  have "filter_throwing violation cs = Inl TypeError"
    using assms
    by (induction cs) (auto simp add: violation_def split: sum.splits option.splits)
  then show ?thesis
    by (simp add: Pod_Validate_def)
qed

lemma Pod_Validate_decides:
  assumes "\<And>c. c \<in> set cs \<Longrightarrow> securityContext c \<noteq> None"
  shows "Pod_Validate cs =
           Inr (if \<exists>c \<in> set cs. requested_allowPrivilegeEscalation c \<noteq> Some False
                                \<or> requests_privileged c
                then Deny ''Privilege escalation is disallowed'' 403 None
                else Approve)"
proof -
  let ?bad = "\<lambda>c. requested_allowPrivilegeEscalation c \<noteq> Some False \<or> requests_privileged c"
  have "violation c = Inr (?bad c)" if "c \<in> set cs" for c
    using assms [OF that]
    by (auto simp add: violation_def requested_allowPrivilegeEscalation_def
        requests_privileged_def truthy_def split: option.splits)
  then have "filter_throwing violation cs = Inr (filter ?bad cs)"
    by (rule filter_throwing_total)
  moreover have "(filter ?bad cs \<noteq> []) = (\<exists>c \<in> set cs. ?bad c)"
    by (simp add: filter_empty_conv)
  ultimately show ?thesis
    by (auto simp add: Pod_Validate_def)
qed

text \<open>
  Claim C10. The Pod Mutate step is idempotent: applying it twice yields exactly the
  containers that applying it once yields. A container that received the default in the
  first pass has the field set in the second pass and is left as it is.
\<close>

theorem Pod_Mutate_idempotent: "Pod_Mutate (Pod_Mutate cs) = Pod_Mutate cs"
  by (simp add: Pod_Mutate_def mutate_container_twice)

text \<open>
  Claim C5, as the code has it. For every pod request and every container in it, Mutate
  sets allowPrivilegeEscalation to false exactly when the field is unset, privileged is
  not true and CAP_SYS_ADMIN is not among the added capabilities; any other container is
  left unchanged. Hence after Mutate every container has allowPrivilegeEscalation false,
  or has it true because the request set it so, or is privileged, or adds CAP_SYS_ADMIN.
\<close>

theorem Pod_Mutate_defaults_unset_only:
  "length (Pod_Mutate cs) = length cs \<and>
   (\<forall>k < length cs.
      Pod_Mutate cs ! k =
        (if requested_allowPrivilegeEscalation (cs ! k) = None
            \<and> \<not> requests_privileged (cs ! k)
            \<and> \<not> requests_capability_raise (cs ! k)
         then (cs ! k)\<lparr>securityContext :=
                Some ((case securityContext (cs ! k) of
                         None \<Rightarrow> empty_securityContext | Some sc \<Rightarrow> sc)
                        \<lparr>allowPrivilegeEscalation := Some False\<rparr>)\<rparr>
         else cs ! k)
      \<and> (requested_allowPrivilegeEscalation (Pod_Mutate cs ! k) = Some False
           \<or> (requested_allowPrivilegeEscalation (Pod_Mutate cs ! k) = Some True
               \<and> requested_allowPrivilegeEscalation (cs ! k) = Some True)
           \<or> requests_privileged (Pod_Mutate cs ! k)
           \<or> requests_capability_raise (Pod_Mutate cs ! k)))"
proof -
  have len: "length (Pod_Mutate cs) = length cs"
    by (simp add: Pod_Mutate_def)
  have each: "Pod_Mutate cs ! k = mutate_container (cs ! k)" if "k < length cs" for k
    using that by (simp add: Pod_Mutate_def)
  show ?thesis
  proof (intro conjI allI impI)
    show "length (Pod_Mutate cs) = length cs" by (rule len)
  next
    fix k assume "k < length cs"
    then show "Pod_Mutate cs ! k =
        (if requested_allowPrivilegeEscalation (cs ! k) = None
            \<and> \<not> requests_privileged (cs ! k)
            \<and> \<not> requests_capability_raise (cs ! k)
         then (cs ! k)\<lparr>securityContext :=
                Some ((case securityContext (cs ! k) of
                         None \<Rightarrow> empty_securityContext | Some sc \<Rightarrow> sc)
                        \<lparr>allowPrivilegeEscalation := Some False\<rparr>)\<rparr>
         else cs ! k)"
      using mutate_container_cases [of "cs ! k"] by (simp only: each)
  next
    fix k assume "k < length cs"
    then show "requested_allowPrivilegeEscalation (Pod_Mutate cs ! k) = Some False
           \<or> (requested_allowPrivilegeEscalation (Pod_Mutate cs ! k) = Some True
               \<and> requested_allowPrivilegeEscalation (cs ! k) = Some True)
           \<or> requests_privileged (Pod_Mutate cs ! k)
           \<or> requests_capability_raise (Pod_Mutate cs ! k)"
      using mutate_container_post [of "cs ! k"] by (simp only: each)
  qed
qed

text \<open>
  The theorem at a pod of two containers: the first has no securityContext and receives
  the default, the second asks for escalation and is left as it is.
\<close>

theorem Pod_Mutate_defaults_unset_only_witness:
  "(0::nat) < length [plain_container, escalating_container]
   \<and> Pod_Mutate [plain_container, escalating_container] ! 0
       = plain_container\<lparr>securityContext :=
           Some (empty_securityContext\<lparr>allowPrivilegeEscalation := Some False\<rparr>)\<rparr>
   \<and> (1::nat) < length [plain_container, escalating_container]
   \<and> Pod_Mutate [plain_container, escalating_container] ! 1 = escalating_container"
proof -
  have h0: "(0::nat) < length [plain_container, escalating_container]" by simp
  have h1: "(1::nat) < length [plain_container, escalating_container]" by simp
  note at_k = Pod_Mutate_defaults_unset_only [of "[plain_container, escalating_container]",
      THEN conjunct2, rule_format]
  from at_k [OF h0] at_k [OF h1] h0 h1 show ?thesis
    by (simp add: plain_container_def escalating_container_def
        requested_allowPrivilegeEscalation_def requests_privileged_def
        requests_capability_raise_def)
qed

text \<open>
  Claim C5 as stated fails: a container that sets allowPrivilegeEscalation to true, is
  not privileged and adds no capability is left unchanged by Mutate, and satisfies none
  of the three alternatives of the stated postcondition.
\<close>

theorem Pod_Mutate_keeps_explicit_escalation:
  "Pod_Mutate [escalating_container] = [escalating_container]
   \<and> \<not> (requested_allowPrivilegeEscalation escalating_container = Some False
          \<or> requests_privileged escalating_container
          \<or> requests_capability_raise escalating_container)"
  by (simp add: Pod_Mutate_def mutate_container_def mutateCriteria_def truthy_def
      escalating_container_def requested_allowPrivilegeEscalation_def
      requests_privileged_def requests_capability_raise_def)

text \<open>
  Claim C6: for every pod request, also one Mutate has not processed, Validate returns a
  decision (Deny with status 403 if a container has allowPrivilegeEscalation true or
  unset, or is privileged; Approve otherwise) and never faults on a container without
  securityContext. The code at a pod whose only container has no securityContext,
  submitted to Validate as it is: the callback throws a TypeError and returns no
  decision.
\<close>

theorem Pod_Validate_faults_without_securityContext:
  "Pod_Validate [plain_container] = Inl TypeError"
  by (simp add: Pod_Validate_def violation_def plain_container_def)

text \<open>
  Claim C7, as the code has it. Validate applied to the output of Mutate never faults.
  It returns Approve exactly for the pod requests in which no container sets
  allowPrivilegeEscalation to true, none is privileged, and none adds CAP_SYS_ADMIN
  while leaving allowPrivilegeEscalation unset; for every other pod request it returns
  Deny with status 403.
\<close>

theorem Pod_Validate_after_Mutate:
  "Pod_Validate (Pod_Mutate cs) =
     Inr (if \<exists>c \<in> set cs. requested_allowPrivilegeEscalation c = Some True
                          \<or> requests_privileged c
                          \<or> (requested_allowPrivilegeEscalation c = None
                              \<and> requests_capability_raise c)
          then Deny ''Privilege escalation is disallowed'' 403 None
          else Approve)"
proof -
  let ?bad = "\<lambda>c. requested_allowPrivilegeEscalation c = Some True \<or> requests_privileged c
                \<or> (requested_allowPrivilegeEscalation c = None \<and> requests_capability_raise c)"
  have "filter_throwing (\<lambda>c. violation (mutate_container c)) cs = Inr (filter ?bad cs)"
    by (rule filter_throwing_total) (simp add: violation_mutate_container)
  moreover have "filter_throwing violation (map mutate_container xs)
      = map_sum id (map mutate_container)
          (filter_throwing (\<lambda>c. violation (mutate_container c)) xs)" for xs
    by (induction xs) (simp_all split: sum.splits)
  ultimately have "filter_throwing violation (Pod_Mutate cs)
      = Inr (map mutate_container (filter ?bad cs))"
    by (simp add: Pod_Mutate_def)
  moreover have "(filter ?bad cs \<noteq> []) = (\<exists>c \<in> set cs. ?bad c)"
    by (simp add: filter_empty_conv)
  ultimately show ?thesis
    by (auto simp add: Pod_Validate_def)
qed

text \<open>The theorem at a pod whose only container has no securityContext.\<close>

theorem Pod_Validate_after_Mutate_witness:
  "Pod_Validate (Pod_Mutate [plain_container]) = Inr Approve"
  using Pod_Validate_after_Mutate [of "[plain_container]"]
  by (simp add: plain_container_def requested_allowPrivilegeEscalation_def
      requests_privileged_def requests_capability_raise_def)

text \<open>
  Claim C7 as stated fails: Mutate leaves a privileged container as it is, and Validate
  denies the pod Mutate produced.
\<close>

theorem Pod_Mutate_output_denied:
  "Pod_Validate (Pod_Mutate [privileged_container])
     = Inr (Deny ''Privilege escalation is disallowed'' 403 None)"
  by (simp add: Pod_Validate_def Pod_Mutate_def mutate_container_def mutateCriteria_def
      violation_def truthy_def privileged_container_def)


section \<open>WebApp admission path: pass-through and validation\<close>

text \<open>Reading the last element, the element before the first, and one past the end.\<close>

lemma js_index_last: "cs \<noteq> [] \<Longrightarrow> js_index cs (int (length cs) - 1) = Some (last cs)"
  by (cases cs rule: rev_cases) (simp_all add: js_index_def nat_diff_distrib)

lemma js_index_past_end: "js_index cs (int (length cs)) = None"
  by (simp add: js_index_def)

lemma last_status_is_Pending_iff:
  "last_status_is_Pending cs = (cs \<noteq> [] \<and> status (last cs) = ''Pending'')"
proof (cases "cs = []")
  case True
  then show ?thesis by (simp add: last_status_is_Pending_def js_index_def)
next
  case False
  then show ?thesis by (simp add: last_status_is_Pending_def js_index_last)
qed

lemma warnings_differ:
  "language_warning \<noteq> replicas_warning" "language_warning \<noteq> theme_warning"
  "replicas_warning \<noteq> theme_warning"
  by (simp_all add: language_warning_def replicas_warning_def theme_warning_def)

text \<open>
  Claim C3, the pass-through law. For every create or update request for a WebApp whose
  last Condition has status Pending, Mutate returns the object unmodified and Validate
  returns Approve, whatever the spec holds.
\<close>

theorem WebApp_pending_pass_through:
  assumes "wa_status wa = Some st" and "conditions st = Some cs"
    and "cs \<noteq> []" and "status (last cs) = ''Pending''"
  shows "WebApp_Mutate now wa = wa \<and> WebApp_Validate wa = Inr Approve"
  using assms
  by (simp add: WebApp_Mutate_def WebApp_Validate_def getConditions_def
      last_status_is_Pending_iff)

text \<open>
  The theorem at an instance whose deployment is in flight and whose spec is invalid
  (language french, no replica).
\<close>

theorem WebApp_pending_pass_through_witness:
  "wa_status instance_pending = Some \<lparr>conditions = Some [Ready_1, Pending_2]\<rparr>
   \<and> status (last [Ready_1, Pending_2]) = ''Pending''
   \<and> spec instance_pending = Some invalid_spec \<and> language invalid_spec = ''french''
   \<and> WebApp_Mutate ''2025-06-01T12:00:00.000Z'' instance_pending = instance_pending
   \<and> WebApp_Validate instance_pending = Inr Approve"
  using WebApp_pending_pass_through [of instance_pending
      "\<lparr>conditions = Some [Ready_1, Pending_2]\<rparr>" "[Ready_1, Pending_2]"
      "''2025-06-01T12:00:00.000Z''"]
  by (simp add: instance_pending_def Pending_2_def invalid_spec_def)

text \<open>Without a spec, and not passed through, Validate throws.\<close>

lemma WebApp_Validate_without_spec:
  assumes "\<not> last_status_is_Pending (getConditions wa)" and "spec wa = None"
  shows "WebApp_Validate wa = Inl TypeError"
  using assms by (simp add: WebApp_Validate_def)

text \<open>
  Claim C4, as the code has it. For every WebApp request that carries a spec and whose
  last Condition is not Pending (no Condition at all included), Validate returns Approve
  if and only if the language is english or spanish, the replicas are at least 1 and the
  theme is dark or light; otherwise it returns Deny with status 422 and a list of
  warnings that holds, once each, exactly the messages of the violated predicates.
\<close>

theorem WebApp_Validate_collects_all:
  assumes "\<not> (\<exists>st cs. wa_status wa = Some st \<and> conditions st = Some cs \<and> cs \<noteq> []
                \<and> status (last cs) = ''Pending'')"
    and "spec wa = Some sp"
  shows "(WebApp_Validate wa = Inr Approve)
           = (language sp \<in> {''english'', ''spanish''} \<and> 1 \<le> replicas sp
              \<and> theme sp \<in> {''dark'', ''light''})
         \<and> (\<exists>ws. WebApp_Validate wa
                    = Inr (if ws = [] then Approve
                           else Deny ''Spec field is incorrect'' 422 (Some ws))
                \<and> distinct ws
                \<and> set ws \<subseteq> {language_warning, replicas_warning, theme_warning}
                \<and> (language_warning \<in> set ws) = (language sp \<notin> {''english'', ''spanish''})
                \<and> (replicas_warning \<in> set ws) = (replicas sp < 1)
                \<and> (theme_warning \<in> set ws) = (theme sp \<notin> {''dark'', ''light''}))"
proof -
  have np: "\<not> last_status_is_Pending (getConditions wa)"
    using assms(1)
    by (auto simp add: last_status_is_Pending_iff getConditions_def split: option.splits)
  have v: "WebApp_Validate wa
             = Inr (if spec_warnings sp = [] then Approve
                    else Deny ''Spec field is incorrect'' 422 (Some (spec_warnings sp)))"
    using np assms(2) by (simp add: WebApp_Validate_def Let_def)
  have first: "(WebApp_Validate wa = Inr Approve)
           = (language sp \<in> {''english'', ''spanish''} \<and> 1 \<le> replicas sp
              \<and> theme sp \<in> {''dark'', ''light''})"
    unfolding v by (auto simp add: spec_warnings_def)
  have d: "distinct (spec_warnings sp)"
    using warnings_differ by (simp add: spec_warnings_def)
  have s: "set (spec_warnings sp) \<subseteq> {language_warning, replicas_warning, theme_warning}"
    by (auto simp add: spec_warnings_def)
  have l: "(language_warning \<in> set (spec_warnings sp))
             = (language sp \<notin> {''english'', ''spanish''})"
    using warnings_differ by (simp add: spec_warnings_def)
  have r: "(replicas_warning \<in> set (spec_warnings sp)) = (replicas sp < 1)"
    using warnings_differ by (auto simp add: spec_warnings_def)
  have t: "(theme_warning \<in> set (spec_warnings sp))
             = (theme sp \<notin> {''dark'', ''light''})"
    using warnings_differ by (auto simp add: spec_warnings_def)
  from v d s l r t have "\<exists>ws. WebApp_Validate wa
                    = Inr (if ws = [] then Approve
                           else Deny ''Spec field is incorrect'' 422 (Some ws))
                \<and> distinct ws
                \<and> set ws \<subseteq> {language_warning, replicas_warning, theme_warning}
                \<and> (language_warning \<in> set ws) = (language sp \<notin> {''english'', ''spanish''})
                \<and> (replicas_warning \<in> set ws) = (replicas sp < 1)
                \<and> (theme_warning \<in> set ws) = (theme sp \<notin> {''dark'', ''light''})"
    by blast
  with first show ?thesis by blast
qed

text \<open>
  The theorem at an instance whose last Condition is Ready and whose spec violates two
  predicates: both messages are listed, the third is not.
\<close>

theorem WebApp_Validate_collects_all_witness:
  "status (last [Ready_1]) \<noteq> ''Pending''
   \<and> spec instance_gen2 = Some invalid_spec
   \<and> WebApp_Validate instance_gen2 \<noteq> Inr Approve
   \<and> (\<exists>ws. WebApp_Validate instance_gen2
                = Inr (Deny ''Spec field is incorrect'' 422 (Some ws))
         \<and> language_warning \<in> set ws \<and> replicas_warning \<in> set ws
         \<and> theme_warning \<notin> set ws)"
proof -
  have np: "status (last [Ready_1]) \<noteq> ''Pending''"
    by (simp add: Ready_1_def)
  then have h: "\<not> (\<exists>st cs. wa_status instance_gen2 = Some st \<and> conditions st = Some cs
                  \<and> cs \<noteq> [] \<and> status (last cs) = ''Pending'')"
    by (auto simp add: instance_gen2_def)
  have sp: "spec instance_gen2 = Some invalid_spec" by (simp add: instance_gen2_def)
  from WebApp_Validate_collects_all [OF h sp] np sp show ?thesis
    by (auto simp add: invalid_spec_def split: if_splits)
qed

text \<open>
  Claim C4 as stated fails: a WebApp without spec and without status is not passed
  through, and Validate neither approves it nor denies it with status 422; it throws.
\<close>

theorem WebApp_Validate_throws_without_spec:
  "wa_status instance_without_spec = None
   \<and> WebApp_Validate instance_without_spec = Inl TypeError"
  by (simp add: WebApp_Validate_def getConditions_def last_status_is_Pending_def
      js_index_def instance_without_spec_def)

section \<open>Reconciliation: the steps of a run\<close>

text \<open>Each step, field by field of the state.\<close>

lemma push_sel:
  "outcome (push c s) = outcome s" "ledger (push c s) = ledger s @ [c]"
  "trace (push c s) = trace s" "metadata (inst (push c s)) = metadata (inst s)"
  by (simp_all add: push_def split: option.splits)

lemma push_status:
  "wa_status (inst (push c s)) =
     (case wa_status (inst s) of
        None \<Rightarrow> None
      | Some st \<Rightarrow> (case conditions st of
                     None \<Rightarrow> Some st
                   | Some cs \<Rightarrow> Some (st\<lparr>conditions := Some (cs @ [c])\<rparr>)))"
  by (simp add: push_def split: option.splits)

lemma updateStatus_sel:
  "outcome (updateStatus e p s) = outcome s" "ledger (updateStatus e p s) = ledger s"
  "inst (updateStatus e p s) = inst s"
  by (simp_all add: updateStatus_def split: option.splits)

lemma updateStatus_trace:
  "trace (updateStatus e p s) =
     trace s @ (case metadata (inst s) of
                  None \<Rightarrow> [LogError]
                | Some m \<Rightarrow> PatchStatus (name m) (namespace m) p
                            # (if patch_ok e p then [] else [LogError]))"
  by (simp add: updateStatus_def split: option.splits)

lemma writeEvent_sel:
  "ledger (writeEvent e msg s) = ledger s" "inst (writeEvent e msg s) = inst s"
  by (simp_all add: writeEvent_def split: option.splits)

lemma writeEvent_outcome:
  "outcome (writeEvent e msg s) =
     (case metadata (inst s) of
        None \<Rightarrow> Some TypeError
      | Some m \<Rightarrow> if event_ok e msg then None else Some EventError)"
  by (simp add: writeEvent_def split: option.splits)

lemma writeEvent_trace:
  "trace (writeEvent e msg s) =
     trace s @ (case metadata (inst s) of None \<Rightarrow> [] | Some m \<Rightarrow> [WriteEvent (name m) msg])"
  by (simp add: writeEvent_def split: option.splits)

lemma Deploy_sel:
  "ledger (Deploy e s) = ledger s" "inst (Deploy e s) = inst s"
  "trace (Deploy e s) = trace s @ [DeployCall]"
  "outcome (Deploy e s) = (if deploy_ok e then None else Some DeployError)"
  by (simp_all add: Deploy_def)

lemmas step_sel = push_sel push_status updateStatus_sel updateStatus_trace writeEvent_sel
  writeEvent_outcome writeEvent_trace Deploy_sel

text \<open>The Pending block, field by field.\<close>

lemma pending_block_sel:
  "ledger (pending_block e g i) = getConditions i @ [Pending_condition e g]"
  "metadata (inst (pending_block e g i)) = metadata i"
  "wa_status (inst (pending_block e g i)) =
     (case wa_status i of
        None \<Rightarrow> None
      | Some st \<Rightarrow> (case conditions st of
                     None \<Rightarrow> Some st
                   | Some cs \<Rightarrow> Some (st\<lparr>conditions := Some (cs @ [Pending_condition e g])\<rparr>)))"
  "outcome (pending_block e g i) =
     (case metadata i of
        None \<Rightarrow> Some TypeError
      | Some m \<Rightarrow> if event_ok e ''Pending'' then None else Some EventError)"
  "trace (pending_block e g i) =
     (case metadata i of
        None \<Rightarrow> [LogError]
      | Some m \<Rightarrow>
          PatchStatus (name m) (namespace m)
            (Some \<lparr>conditions = Some (getConditions i @ [Pending_condition e g])\<rparr>)
          # (if patch_ok e (Some \<lparr>conditions = Some (getConditions i @ [Pending_condition e g])\<rparr>)
             then [] else [LogError])
          @ [WriteEvent (name m) ''Pending''])"
  by (simp_all add: pending_block_def step_sel split: option.splits)

text \<open>The try block when the generator succeeds, field by field.\<close>

lemma try_block_ok_sel:
  assumes "deploy_ok e"
  shows "ledger (try_block e g s) = ledger s @ [Ready_condition e g]"
    and "metadata (inst (try_block e g s)) = metadata (inst s)"
    and "wa_status (inst (try_block e g s)) =
       (case wa_status (inst s) of
          None \<Rightarrow> None
        | Some st \<Rightarrow> (case conditions st of
                       None \<Rightarrow> Some st
                     | Some cs \<Rightarrow> Some (st\<lparr>conditions := Some (cs @ [Ready_condition e g])\<rparr>)))"
    and "outcome (try_block e g s) =
       (case metadata (inst s) of
          None \<Rightarrow> Some TypeError
        | Some m \<Rightarrow> if event_ok e ''Reconciled'' then None else Some EventError)"
    and "trace (try_block e g s) =
       trace s @ DeployCall #
       (case metadata (inst s) of
          None \<Rightarrow> [LogError]
        | Some m \<Rightarrow>
            PatchStatus (name m) (namespace m)
              (Some \<lparr>conditions = Some (ledger s @ [Ready_condition e g])\<rparr>)
            # (if patch_ok e (Some \<lparr>conditions = Some (ledger s @ [Ready_condition e g])\<rparr>)
               then [] else [LogError])
            @ [WriteEvent (name m) ''Reconciled''])"
  using assms by (simp_all add: try_block_def step_sel split: option.splits)

text \<open>The try block when the generator fails: the call, and the exception.\<close>

lemma try_block_fail:
  assumes "\<not> deploy_ok e"
  shows "try_block e g s = s\<lparr>trace := trace s @ [DeployCall], outcome := Some DeployError\<rparr>"
  using assms by (simp add: try_block_def Deploy_def)


text \<open>The catch block on an instance that has a conditions array: the read at lines
  146-147 is one past the end of that array.\<close>

lemma catch_block_shared:
  assumes "wa_status (inst s) = Some st" and "conditions st = Some cs"
  shows "catch_block e s = s\<lparr>outcome := Some TypeError, trace := trace s @ [LogError]\<rparr>"
  using assms
  by (simp add: catch_block_def read_failed_observedGeneration_def js_index_past_end)

text \<open>The catch block on an instance without status, field by field.\<close>

lemma catch_block_fresh_sel:
  assumes "wa_status (inst s) = None"
  shows "ledger (catch_block e s) = ledger s @ [Failed_condition e None]"
    and "inst (catch_block e s) = inst s"
    and "outcome (catch_block e s) =
       (case metadata (inst s) of
          None \<Rightarrow> Some TypeError
        | Some m \<Rightarrow> if event_ok e ''Failed'' then None else Some EventError)"
    and "trace (catch_block e s) =
       trace s @ LogError #
       (case metadata (inst s) of
          None \<Rightarrow> [LogError]
        | Some m \<Rightarrow>
            PatchStatus (name m) (namespace m) None
            # (if patch_ok e None then [] else [LogError])
            @ [WriteEvent (name m) ''Failed''])"
  using assms
  by (simp_all add: catch_block_def read_failed_observedGeneration_def step_sel push_def
      split: option.splits)

text \<open>What the two reads at the head of Reconcile give, by the shape of the status.\<close>

lemma reads_nonempty:
  assumes "wa_status i = Some st" and "conditions st = Some cs" and "cs \<noteq> []"
  shows "read_observedGeneration i = Inr (observedGeneration (last cs))"
    and "read_latestCondition i = Inr (last cs)"
    and "getConditions i = cs"
  using assms
  by (simp_all add: read_observedGeneration_def read_latestCondition_def js_index_last
      getConditions_def)

lemma reads_no_status:
  assumes "wa_status i = None"
  shows "read_observedGeneration i = Inr None"
    and "read_latestCondition i = Inr empty_condition"
    and "getConditions i = []"
  using assms
  by (simp_all add: read_observedGeneration_def read_latestCondition_def getConditions_def)

lemma Reconcile_throws_at_reads:
  assumes "wa_status i = Some st" and "conditions st = None \<or> conditions st = Some []"
  shows "Reconcile e i
           = \<lparr>outcome = Some TypeError, inst = i, ledger = getConditions i, trace = []\<rparr>"
  using assms
  by (auto simp add: Reconcile_def read_observedGeneration_def read_latestCondition_def
      js_index_def)

text \<open>Reconcile when the guard holds, and when it does not.\<close>

lemma Reconcile_deploys:
  assumes "read_observedGeneration i = Inr og" and "read_latestCondition i = Inr lc"
    and "g = read_generation i"
    and "g \<noteq> og" and "status lc \<noteq> ''Pending''" and "reason lc \<noteq> ''Processing''"
  shows "Reconcile e i =
           (if outcome (pending_block e g i) \<noteq> None then pending_block e g i
            else if outcome (try_block e g (pending_block e g i)) = None
                 then try_block e g (pending_block e g i)
                 else catch_block e (try_block e g (pending_block e g i)))"
  using assms by (simp add: Reconcile_def Let_def)

lemma Reconcile_skips:
  assumes "read_observedGeneration i = Inr og" and "read_latestCondition i = Inr lc"
    and "read_generation i = og
         \<or> status lc = ''Pending'' \<or> reason lc = ''Processing''"
  shows "Reconcile e i
           = \<lparr>outcome = None, inst = i, ledger = getConditions i, trace = [LogDebug]\<rparr>"
  using assms by (auto simp add: Reconcile_def Let_def)


text \<open>Which statuses each block patches.\<close>

lemma pending_block_patches:
  assumes "PatchStatus nm ns (Some st) \<in> set (trace (pending_block e g i))"
  shows "st = \<lparr>conditions = Some (getConditions i @ [Pending_condition e g])\<rparr>"
  using assms by (auto simp add: pending_block_sel split: option.splits if_splits)

lemma try_block_patches:
  assumes "PatchStatus nm ns (Some st) \<in> set (trace (try_block e g s))"
  shows "PatchStatus nm ns (Some st) \<in> set (trace s)
         \<or> st = \<lparr>conditions = Some (ledger s @ [Ready_condition e g])\<rparr>"
proof (cases "deploy_ok e")
  case True
  then show ?thesis
    using assms by (auto simp add: try_block_ok_sel split: option.splits if_splits)
next
  case False
  then show ?thesis
    using assms by (simp add: try_block_fail)
qed

lemma try_block_status_shape:
  "wa_status (inst (try_block e g s)) = None \<longleftrightarrow> wa_status (inst s) = None"
  "(\<exists>st cs. wa_status (inst (try_block e g s)) = Some st \<and> conditions st = Some cs)
     \<longleftrightarrow> (\<exists>st cs. wa_status (inst s) = Some st \<and> conditions st = Some cs)"
  by (cases "deploy_ok e"; simp add: try_block_ok_sel try_block_fail split: option.splits)+

lemma catch_block_patches:
  assumes "PatchStatus nm ns (Some st) \<in> set (trace (catch_block e s))"
    and "wa_status (inst s) = None
         \<or> (\<exists>st0 cs. wa_status (inst s) = Some st0 \<and> conditions st0 = Some cs)"
  shows "PatchStatus nm ns (Some st) \<in> set (trace s)"
  using assms
  by (auto simp add: catch_block_shared catch_block_fresh_sel split: option.splits if_splits)


text \<open>
  Every status a run patches ends in the Pending Condition, or in the Ready Condition
  for the generation the run read.
\<close>

lemma Reconcile_patches:
  assumes "PatchStatus nm ns (Some st) \<in> set (trace (Reconcile e i))"
    and "g = read_generation i"
  shows "st = \<lparr>conditions = Some (getConditions i @ [Pending_condition e g])\<rparr>
         \<or> st = \<lparr>conditions = Some (getConditions i @ [Pending_condition e g,
                                                       Ready_condition e g])\<rparr>"
proof -
  let ?p = "pending_block e g i"
  let ?t = "try_block e g ?p"
  consider (absent) "wa_status i = None"
    | (faulty) st0 where "wa_status i = Some st0"
        and "conditions st0 = None \<or> conditions st0 = Some []"
    | (ledger) st0 cs where "wa_status i = Some st0" and "conditions st0 = Some cs"
        and "cs \<noteq> []"
    by (cases "wa_status i") (auto, metis option.exhaust)
  then have shape: "Reconcile e i = \<lparr>outcome = Some TypeError, inst = i, ledger = getConditions i,
                               trace = []\<rparr>
      \<or> Reconcile e i = \<lparr>outcome = None, inst = i, ledger = getConditions i,
                          trace = [LogDebug]\<rparr>
      \<or> (Reconcile e i = ?p \<or> Reconcile e i = ?t \<or> Reconcile e i = catch_block e ?t)
         \<and> (wa_status i = None
              \<or> (\<exists>st0 cs. wa_status i = Some st0 \<and> conditions st0 = Some cs))"
  proof cases
    case absent
    show ?thesis
    proof (cases "g \<noteq> None")
      case True
      then show ?thesis
        using Reconcile_deploys [OF reads_no_status(1,2) [OF absent] assms(2), of e] absent
        by (simp add: empty_condition_def)
    next
      case False
      then show ?thesis
        using Reconcile_skips [OF reads_no_status(1,2) [OF absent], of e] assms(2) by simp
    qed
  next
    case faulty
    then show ?thesis using Reconcile_throws_at_reads [of i st0 e] by simp
  next
    case ledger
    note rd = reads_nonempty(1,2) [OF ledger]
    show ?thesis
    proof (cases "g \<noteq> observedGeneration (last cs) \<and> status (last cs) \<noteq> ''Pending''
                  \<and> reason (last cs) \<noteq> ''Processing''")
      case True
      then show ?thesis
        using Reconcile_deploys [OF rd assms(2), of e] ledger(1,2) by auto
    next
      case False
      then show ?thesis
        using Reconcile_skips [OF rd, of e] assms(2) by auto
    qed
  qed
  have shape_p: "wa_status (inst ?p) = None
         \<or> (\<exists>st0 cs. wa_status (inst ?p) = Some st0 \<and> conditions st0 = Some cs)"
    if "wa_status i = None \<or> (\<exists>st0 cs. wa_status i = Some st0 \<and> conditions st0 = Some cs)"
    using that by (auto simp add: pending_block_sel)
  have in_p: "st = \<lparr>conditions = Some (getConditions i @ [Pending_condition e g])\<rparr>"
    if "PatchStatus nm ns (Some st) \<in> set (trace ?p)"
    using that by (rule pending_block_patches)
  have in_t: "st = \<lparr>conditions = Some (getConditions i @ [Pending_condition e g])\<rparr>
         \<or> st = \<lparr>conditions = Some (getConditions i @ [Pending_condition e g,
                                                       Ready_condition e g])\<rparr>"
    if "PatchStatus nm ns (Some st) \<in> set (trace ?t)"
    using try_block_patches [OF that] in_p by (auto simp add: pending_block_sel)
  have in_c: "PatchStatus nm ns (Some st) \<in> set (trace ?t)"
    if "PatchStatus nm ns (Some st) \<in> set (trace (catch_block e ?t))"
      and "wa_status i = None \<or> (\<exists>st0 cs. wa_status i = Some st0 \<and> conditions st0 = Some cs)"
    using that(1)
  proof (rule catch_block_patches)
    show "wa_status (inst ?t) = None
          \<or> (\<exists>st0 cs. wa_status (inst ?t) = Some st0 \<and> conditions st0 = Some cs)"
      using shape_p [OF that(2)] by (simp only: try_block_status_shape)
  qed
  let ?has = "wa_status i = None
              \<or> (\<exists>st0 cs. wa_status i = Some st0 \<and> conditions st0 = Some cs)"
  from shape consider
      (fault) "Reconcile e i = \<lparr>outcome = Some TypeError, inst = i, ledger = getConditions i,
                                 trace = []\<rparr>"
    | (skip) "Reconcile e i = \<lparr>outcome = None, inst = i, ledger = getConditions i,
                                trace = [LogDebug]\<rparr>"
    | (p) "Reconcile e i = ?p"
    | (t) "Reconcile e i = ?t"
    | (c) "Reconcile e i = catch_block e ?t" and "?has"
    by blast
  then show ?thesis
  proof cases
    case fault
    then show ?thesis using assms(1) by simp
  next
    case skip
    then show ?thesis using assms(1) by simp
  next
    case p
    then show ?thesis using assms(1) in_p by simp
  next
    case t
    then show ?thesis using assms(1) in_t by simp
  next
    case c
    then show ?thesis using assms(1) in_c in_t by simp
  qed
qed


text \<open>Which branch a deploying run takes, by what the outside world does.\<close>

lemma Reconcile_runs:
  assumes "read_observedGeneration i = Inr og" and "read_latestCondition i = Inr lc"
    and "metadata i = Some m"
    and "generation m \<noteq> og" and "status lc \<noteq> ''Pending''" and "reason lc \<noteq> ''Processing''"
    and "event_ok e ''Pending''"
  shows "deploy_ok e \<Longrightarrow> event_ok e ''Reconciled''
           \<Longrightarrow> Reconcile e i = try_block e (generation m) (pending_block e (generation m) i)"
    and "\<not> deploy_ok e
           \<Longrightarrow> Reconcile e i
               = catch_block e (try_block e (generation m) (pending_block e (generation m) i))"
proof -
  let ?g = "generation m"
  have g: "?g = read_generation i"
    using assms(3) by (simp add: read_generation_def)
  have p: "outcome (pending_block e ?g i) = None"
    and pm: "metadata (inst (pending_block e ?g i)) = Some m"
    using assms(3,7) by (simp_all add: pending_block_sel)
  note r = Reconcile_deploys [OF assms(1,2) g assms(4,5,6), of e]
  show "Reconcile e i = try_block e ?g (pending_block e ?g i)"
    if "deploy_ok e" and "event_ok e ''Reconciled''"
    using that p pm by (simp add: r try_block_ok_sel)
  show "Reconcile e i = catch_block e (try_block e ?g (pending_block e ?g i))"
    if "\<not> deploy_ok e"
    using that p by (simp add: r try_block_fail)
qed

text \<open>Only a skipped run has the debug line as its whole trace.\<close>

lemma pending_block_no_debug: "LogDebug \<notin> set (trace (pending_block e g i))"
  by (simp add: pending_block_sel split: option.splits)

lemma try_block_calls_Deploy: "DeployCall \<in> set (trace (try_block e g s))"
  by (cases "deploy_ok e") (simp_all add: try_block_ok_sel try_block_fail)

lemma catch_block_logs: "LogError \<in> set (trace (catch_block e s))"
proof (cases "read_failed_observedGeneration (inst s)")
  case (Inl err)
  then show ?thesis by (simp add: catch_block_def)
next
  case (Inr og)
  then show ?thesis
    by (simp add: catch_block_def Let_def writeEvent_trace updateStatus_trace push_sel)
qed

lemma Reconcile_skipped:
  assumes "trace (Reconcile e i) = [LogDebug]"
  shows "\<exists>og lc. read_observedGeneration i = Inr og \<and> read_latestCondition i = Inr lc
           \<and> (read_generation i = og
                \<or> status lc = ''Pending'' \<or> reason lc = ''Processing'')"
proof (cases "read_observedGeneration i")
  case (Inl err)
  then show ?thesis using assms by (simp add: Reconcile_def)
next
  case og: (Inr og)
  show ?thesis
  proof (cases "read_latestCondition i")
    case (Inl err)
    then show ?thesis using assms og by (simp add: Reconcile_def)
  next
    case lc: (Inr lc)
    define g where "g = read_generation i"
    show ?thesis
    proof (rule ccontr)
      assume "\<not> ?thesis"
      then have guard: "g \<noteq> og" "status lc \<noteq> ''Pending''" "reason lc \<noteq> ''Processing''"
        using og lc by (simp_all add: g_def)
      let ?p = "pending_block e g i"
      let ?t = "try_block e g ?p"
      from Reconcile_deploys [OF og lc g_def guard, of e]
      consider "Reconcile e i = ?p" | "Reconcile e i = ?t" | "Reconcile e i = catch_block e ?t"
        by (auto split: if_splits)
      then show False
      proof cases
        case 1
        then show False using assms pending_block_no_debug [of e g i] by simp
      next
        case 2
        then show False using assms try_block_calls_Deploy [of e g ?p] by simp
      next
        case 3
        then show False using assms catch_block_logs [of e ?t] by simp
      qed
    qed
  qed
qed

text \<open>The two reads look at the status only.\<close>

lemma reads_depend_on_status:
  assumes "wa_status i2 = wa_status i"
  shows "read_observedGeneration i2 = read_observedGeneration i"
    and "read_latestCondition i2 = read_latestCondition i"
  using assms by (simp_all add: read_observedGeneration_def read_latestCondition_def)

text \<open>
  On an instance without status the two reads take their defaults, and no run ends in a
  TypeError.
\<close>

lemma Reconcile_without_status:
  assumes "wa_status i = None"
  shows "outcome (Reconcile e i) \<noteq> Some TypeError"
proof (cases "metadata i")
  case None
  then show ?thesis
    using Reconcile_skips [OF reads_no_status(1,2) [OF assms], of e]
    by (simp add: read_generation_def)
next
  case (Some m)
  note rd = reads_no_status(1,2) [OF assms]
  let ?g = "generation m"
  let ?p = "pending_block e ?g i"
  have g: "?g = read_generation i"
    using Some by (simp add: read_generation_def)
  show ?thesis
  proof (cases "?g = None")
    case True
    then show ?thesis
      using Reconcile_skips [OF rd, of e] g by simp
  next
    case False
    have r: "Reconcile e i =
           (if outcome ?p \<noteq> None then ?p
            else if outcome (try_block e ?g ?p) = None then try_block e ?g ?p
                 else catch_block e (try_block e ?g ?p))"
      using Reconcile_deploys [OF rd g, of e] False by (simp add: empty_condition_def)
    have p: "outcome ?p \<noteq> Some TypeError" and pm: "metadata (inst ?p) = Some m"
      and ps: "wa_status (inst ?p) = None"
      using Some assms by (simp_all add: pending_block_sel)
    have ts: "wa_status (inst (try_block e ?g ?p)) = None"
      using ps by (simp add: try_block_status_shape)
    have tm: "metadata (inst (try_block e ?g ?p)) = Some m"
      using pm by (cases "deploy_ok e") (simp_all add: try_block_ok_sel try_block_fail)
    have c: "outcome (catch_block e (try_block e ?g ?p)) \<noteq> Some TypeError"
      using tm by (simp add: catch_block_fresh_sel(3) [OF ts])
    show ?thesis
      using p c by (simp add: r)
  qed
qed

text \<open>
  On an instance with a last Condition, a run whose generator fails ends in the
  TypeError of the catch block, with the Pending Condition as the only one appended.
\<close>

lemma Reconcile_failure_with_ledger:
  assumes "metadata i = Some m" and "wa_status i = Some st" and "conditions st = Some cs"
    and "cs \<noteq> []"
    and "generation m \<noteq> observedGeneration (last cs)"
    and "status (last cs) \<noteq> ''Pending''" and "reason (last cs) \<noteq> ''Processing''"
    and "\<not> deploy_ok e" and "event_ok e ''Pending''"
  shows "outcome (Reconcile e i) = Some TypeError"
    and "ledger (Reconcile e i) = cs @ [Pending_condition e (generation m)]"
    and "calls (Reconcile e i)
           = [PatchStatus (name m) (namespace m)
                (Some \<lparr>conditions = Some (cs @ [Pending_condition e (generation m)])\<rparr>),
              WriteEvent (name m) ''Pending'',
              DeployCall]"
proof -
  let ?g = "generation m"
  let ?p = "pending_block e ?g i"
  let ?t = "?p\<lparr>trace := trace ?p @ [DeployCall], outcome := Some DeployError\<rparr>"
  have r: "Reconcile e i = catch_block e (try_block e ?g ?p)"
    using Reconcile_runs(2) [OF reads_nonempty(1,2) [OF assms(2,3,4)] assms(1,5,6,7,9,8)] .
  have t: "try_block e ?g ?p = ?t"
    using assms(8) by (rule try_block_fail)
  have "wa_status (inst ?t) = Some (st\<lparr>conditions := Some (cs @ [Pending_condition e ?g])\<rparr>)"
    using assms(2,3) by (simp add: pending_block_sel)
  then have c: "catch_block e ?t = ?t\<lparr>outcome := Some TypeError, trace := trace ?t @ [LogError]\<rparr>"
    by (rule catch_block_shared) simp
  show "outcome (Reconcile e i) = Some TypeError"
    unfolding r t c by simp
  show "ledger (Reconcile e i) = cs @ [Pending_condition e ?g]"
    unfolding r t c using assms(2,3) by (simp add: pending_block_sel getConditions_def)
  show "calls (Reconcile e i)
           = [PatchStatus (name m) (namespace m)
                (Some \<lparr>conditions = Some (cs @ [Pending_condition e ?g])\<rparr>),
              WriteEvent (name m) ''Pending'',
              DeployCall]"
    unfolding r t c calls_def using assms(1,2,3)
    by (simp add: pending_block_sel getConditions_def)
qed

section \<open>Reconciliation: the cycle, its failures and its guard\<close>

text \<open>
  Claim C8. Take an instance whose generation differs from the observedGeneration of its
  last Condition and whose last Condition has neither status Pending nor reason
  Processing, the last Condition being the empty default when the instance has no
  status yet. A successful cycle (the generator succeeds and both events are written)
  appends exactly two Conditions in order: first the one with status Pending, reason
  Processing and observedGeneration equal to the generation, then the one with status
  Ready, reason Reconciled and the same observedGeneration. After each append it patches
  the status with the ledger and writes an event. The appends show in the instance
  object when it had a conditions array.
\<close>

theorem Reconcile_success_cycle:
  assumes "metadata i = Some m"
    and "(wa_status i = None \<and> cs = []
          \<and> lc = \<lparr>observedGeneration = None, lastTransitionTime = None,
                   reason = '''', status = ''''\<rparr>)
         \<or> (\<exists>st. wa_status i = Some st \<and> conditions st = Some cs \<and> cs \<noteq> []
                  \<and> lc = last cs)"
    and "generation m \<noteq> observedGeneration lc"
    and "status lc \<noteq> ''Pending''" and "reason lc \<noteq> ''Processing''"
    and "deploy_ok e" and "event_ok e ''Pending''" and "event_ok e ''Reconciled''"
  shows "outcome (Reconcile e i) = None
       \<and> ledger (Reconcile e i)
           = cs @ [\<lparr>observedGeneration = generation m,
                     lastTransitionTime = Some (clock e ''Pending''),
                     reason = ''Processing'', status = ''Pending''\<rparr>,
                   \<lparr>observedGeneration = generation m,
                     lastTransitionTime = Some (clock e ''Ready''),
                     reason = ''Reconciled'', status = ''Ready''\<rparr>]
       \<and> getConditions (inst (Reconcile e i))
           = (if wa_status i = None then [] else ledger (Reconcile e i))
       \<and> calls (Reconcile e i)
           = [PatchStatus (name m) (namespace m)
                (Some \<lparr>conditions = Some
                   (cs @ [\<lparr>observedGeneration = generation m,
                             lastTransitionTime = Some (clock e ''Pending''),
                             reason = ''Processing'', status = ''Pending''\<rparr>])\<rparr>),
              WriteEvent (name m) ''Pending'',
              DeployCall,
              PatchStatus (name m) (namespace m)
                (Some \<lparr>conditions = Some
                   (cs @ [\<lparr>observedGeneration = generation m,
                             lastTransitionTime = Some (clock e ''Pending''),
                             reason = ''Processing'', status = ''Pending''\<rparr>,
                           \<lparr>observedGeneration = generation m,
                             lastTransitionTime = Some (clock e ''Ready''),
                             reason = ''Reconciled'', status = ''Ready''\<rparr>])\<rparr>),
              WriteEvent (name m) ''Reconciled'']"
proof -
  let ?g = "generation m"
  let ?p = "pending_block e ?g i"
  have rd: "read_observedGeneration i = Inr (observedGeneration lc)"
    "read_latestCondition i = Inr lc" and gc: "getConditions i = cs"
    using assms(2) reads_no_status [of i] reads_nonempty [of i _ cs]
    by (auto simp add: empty_condition_def)
  have shape: "wa_status i = None \<or> (\<exists>st. wa_status i = Some st \<and> conditions st = Some cs)"
    using assms(2) by auto
  have p_meta: "metadata (inst ?p) = Some m"
    and p_ledger: "ledger ?p = cs @ [Pending_condition e ?g]"
    using assms(1) gc by (simp_all add: pending_block_sel)
  have r: "Reconcile e i = try_block e ?g ?p"
    using Reconcile_runs(1) [OF rd assms(1,3,4,5,7,6,8)] .
  have 1: "outcome (Reconcile e i) = None"
    unfolding r using assms(6,8) p_meta by (simp add: try_block_ok_sel)
  have 2: "ledger (Reconcile e i) = cs @ [Pending_condition e ?g, Ready_condition e ?g]"
    unfolding r using assms(6) p_ledger by (simp add: try_block_ok_sel)
  have 3: "getConditions (inst (Reconcile e i))
           = (if wa_status i = None then [] else ledger (Reconcile e i))"
    unfolding 2 unfolding r using assms(6) shape
    by (auto simp add: getConditions_def try_block_ok_sel pending_block_sel)
  have 4: "calls (Reconcile e i)
           = [PatchStatus (name m) (namespace m)
                (Some \<lparr>conditions = Some (cs @ [Pending_condition e ?g])\<rparr>),
              WriteEvent (name m) ''Pending'',
              DeployCall,
              PatchStatus (name m) (namespace m)
                (Some \<lparr>conditions = Some (cs @ [Pending_condition e ?g,
                                                 Ready_condition e ?g])\<rparr>),
              WriteEvent (name m) ''Reconciled'']"
    unfolding r using assms(1,6) p_meta p_ledger gc
    by (simp add: calls_def try_block_ok_sel pending_block_sel)
  from 1 2 3 4 show ?thesis
    unfolding Pending_condition_def Ready_condition_def by blast
qed

text \<open>
  The theorem at generation 2 with last Condition Ready for generation 1, and at
  generation 2 without status, in a world where every call succeeds.
\<close>

theorem Reconcile_success_cycle_witness:
  "generation webapp_meta \<noteq> observedGeneration Ready_1
   \<and> status Ready_1 \<noteq> ''Pending'' \<and> reason Ready_1 \<noteq> ''Processing''
   \<and> last [Ready_1] = Ready_1
   \<and> deploy_ok world_ok
   \<and> outcome (Reconcile world_ok instance_gen2) = None
   \<and> ledger (Reconcile world_ok instance_gen2)
       = [Ready_1,
          \<lparr>observedGeneration = Some 2, lastTransitionTime = Some 10,
            reason = ''Processing'', status = ''Pending''\<rparr>,
          \<lparr>observedGeneration = Some 2, lastTransitionTime = Some 20,
            reason = ''Reconciled'', status = ''Ready''\<rparr>]
   \<and> getConditions (inst (Reconcile world_ok instance_gen2))
       = ledger (Reconcile world_ok instance_gen2)
   \<and> calls (Reconcile world_ok instance_gen2)
       = [PatchStatus (Some ''webapp-light-en'') (Some ''webapps'')
            (Some \<lparr>conditions = Some
               [Ready_1,
                \<lparr>observedGeneration = Some 2, lastTransitionTime = Some 10,
                  reason = ''Processing'', status = ''Pending''\<rparr>]\<rparr>),
          WriteEvent (Some ''webapp-light-en'') ''Pending'',
          DeployCall,
          PatchStatus (Some ''webapp-light-en'') (Some ''webapps'')
            (Some \<lparr>conditions = Some
               [Ready_1,
                \<lparr>observedGeneration = Some 2, lastTransitionTime = Some 10,
                  reason = ''Processing'', status = ''Pending''\<rparr>,
                \<lparr>observedGeneration = Some 2, lastTransitionTime = Some 20,
                  reason = ''Reconciled'', status = ''Ready''\<rparr>]\<rparr>),
          WriteEvent (Some ''webapp-light-en'') ''Reconciled'']
   \<and> wa_status instance_no_status = None
   \<and> outcome (Reconcile world_ok instance_no_status) = None
   \<and> ledger (Reconcile world_ok instance_no_status)
       = [\<lparr>observedGeneration = Some 2, lastTransitionTime = Some 10,
            reason = ''Processing'', status = ''Pending''\<rparr>,
          \<lparr>observedGeneration = Some 2, lastTransitionTime = Some 20,
            reason = ''Reconciled'', status = ''Ready''\<rparr>]
   \<and> getConditions (inst (Reconcile world_ok instance_no_status)) = []"
proof -
  have w: "deploy_ok world_ok" "event_ok world_ok ''Pending''"
    "event_ok world_ok ''Reconciled''"
    "clock world_ok ''Pending'' = 10" "clock world_ok ''Ready'' = 20"
    by (simp_all add: world_ok_def)
  have m: "name webapp_meta = Some ''webapp-light-en''"
    "namespace webapp_meta = Some ''webapps''" "generation webapp_meta = Some 2"
    by (simp_all add: webapp_meta_def)
  have a: "metadata instance_gen2 = Some webapp_meta"
    "(wa_status instance_gen2 = None \<and> [Ready_1] = []
      \<and> Ready_1 = \<lparr>observedGeneration = None, lastTransitionTime = None,
                     reason = '''', status = ''''\<rparr>)
     \<or> (\<exists>st. wa_status instance_gen2 = Some st \<and> conditions st = Some [Ready_1]
              \<and> [Ready_1] \<noteq> [] \<and> Ready_1 = last [Ready_1])"
    "generation webapp_meta \<noteq> observedGeneration Ready_1"
    "status Ready_1 \<noteq> ''Pending''" "reason Ready_1 \<noteq> ''Processing''"
    by (simp_all add: instance_gen2_def webapp_meta_def Ready_1_def)
  let ?dflt = "\<lparr>observedGeneration = None, lastTransitionTime = None,
                 reason = '''', status = ''''\<rparr>"
  have b: "metadata instance_no_status = Some webapp_meta"
    "(wa_status instance_no_status = None \<and> ([]::Condition list) = [] \<and> ?dflt = ?dflt)
     \<or> (\<exists>st. wa_status instance_no_status = Some st \<and> conditions st = Some []
              \<and> ([]::Condition list) \<noteq> [] \<and> ?dflt = last [])"
    "generation webapp_meta \<noteq> observedGeneration ?dflt"
    "status ?dflt \<noteq> ''Pending''" "reason ?dflt \<noteq> ''Processing''"
    by (simp_all add: instance_no_status_def webapp_meta_def)
  have ns: "wa_status instance_no_status = None"
    by (simp add: instance_no_status_def)
  have gs: "wa_status instance_gen2 \<noteq> None"
    by (simp add: instance_gen2_def)
  from Reconcile_success_cycle [OF a w(1,2,3)] Reconcile_success_cycle [OF b w(1,2,3)]
    a(3,4,5) w(1)
  show ?thesis
    by (simp add: w(4,5) m ns gs)
qed

text \<open>
  Claim C2: when the guard fires and the generator fails, the cycle appends one Pending
  and then one Failed Condition, patches the status with the accumulated ledger and
  writes a Failed event. The code at generation 2 with last Condition Ready for
  generation 1, when the generator fails: the Pending Condition is appended, patched and
  announced; the catch block then reads the element one past the end of the conditions
  array, so the callback is rejected with a TypeError before the Failed Condition is
  pushed: no Failed Condition, no further patch, no Failed event.
\<close>

theorem Reconcile_generator_failure:
  "outcome (Reconcile world_deploy_fails instance_gen2) = Some TypeError
   \<and> ledger (Reconcile world_deploy_fails instance_gen2)
       = [Ready_1, Pending_condition world_deploy_fails (Some 2)]
   \<and> trace (Reconcile world_deploy_fails instance_gen2)
       = [PatchStatus (Some ''webapp-light-en'') (Some ''webapps'')
            (Some \<lparr>conditions = Some [Ready_1, Pending_condition world_deploy_fails (Some 2)]\<rparr>),
          WriteEvent (Some ''webapp-light-en'') ''Pending'',
          DeployCall,
          LogError]"
proof -
  let ?p = "pending_block world_deploy_fails (Some 2) instance_gen2"
  have rd: "read_observedGeneration instance_gen2 = Inr (Some 1)"
    "read_latestCondition instance_gen2 = Inr Ready_1"
    using reads_nonempty(1,2) [of instance_gen2 "\<lparr>conditions = Some [Ready_1]\<rparr>" "[Ready_1]"]
    by (simp_all add: instance_gen2_def Ready_1_def)
  have r: "Reconcile world_deploy_fails instance_gen2
          = catch_block world_deploy_fails (try_block world_deploy_fails (Some 2) ?p)"
    using Reconcile_runs(2) [OF rd, of webapp_meta world_deploy_fails]
    by (simp add: instance_gen2_def webapp_meta_def Ready_1_def world_deploy_fails_def)
  have t: "try_block world_deploy_fails (Some 2) ?p
          = ?p\<lparr>trace := trace ?p @ [DeployCall], outcome := Some DeployError\<rparr>"
    by (rule try_block_fail) (simp add: world_deploy_fails_def)
  have c: "catch_block world_deploy_fails
             (?p\<lparr>trace := trace ?p @ [DeployCall], outcome := Some DeployError\<rparr>)
          = ?p\<lparr>outcome := Some TypeError, trace := trace ?p @ [DeployCall, LogError]\<rparr>"
    using catch_block_shared [of "?p\<lparr>trace := trace ?p @ [DeployCall], outcome := Some DeployError\<rparr>"
        "\<lparr>conditions = Some [Ready_1, Pending_condition world_deploy_fails (Some 2)]\<rparr>"
        "[Ready_1, Pending_condition world_deploy_fails (Some 2)]" world_deploy_fails]
    by (simp add: pending_block_sel instance_gen2_def)
  show ?thesis
    unfolding r t c
    by (simp add: pending_block_sel getConditions_def instance_gen2_def webapp_meta_def
        world_deploy_fails_def)
qed

text \<open>
  The same failure on an instance without status: here the Failed Condition is pushed,
  with no observedGeneration, onto the local array only, and the status that is patched
  is \<^verbatim>\<open>instance.status\<close>, which is undefined.
\<close>

lemma Reconcile_failure_without_status:
  "outcome (Reconcile world_deploy_fails instance_no_status) = None
   \<and> ledger (Reconcile world_deploy_fails instance_no_status)
       = [Pending_condition world_deploy_fails (Some 2), Failed_condition world_deploy_fails None]
   \<and> calls (Reconcile world_deploy_fails instance_no_status)
       = [PatchStatus (Some ''webapp-light-en'') (Some ''webapps'')
            (Some \<lparr>conditions = Some [Pending_condition world_deploy_fails (Some 2)]\<rparr>),
          WriteEvent (Some ''webapp-light-en'') ''Pending'',
          DeployCall,
          PatchStatus (Some ''webapp-light-en'') (Some ''webapps'') None,
          WriteEvent (Some ''webapp-light-en'') ''Failed'']"
proof -
  let ?p = "pending_block world_deploy_fails (Some 2) instance_no_status"
  let ?t = "?p\<lparr>trace := trace ?p @ [DeployCall], outcome := Some DeployError\<rparr>"
  have st: "wa_status instance_no_status = None"
    by (simp add: instance_no_status_def)
  have r: "Reconcile world_deploy_fails instance_no_status
          = catch_block world_deploy_fails (try_block world_deploy_fails (Some 2) ?p)"
    using Reconcile_runs(2) [OF reads_no_status(1,2) [OF st], of webapp_meta world_deploy_fails]
    by (simp add: instance_no_status_def webapp_meta_def empty_condition_def
        world_deploy_fails_def)
  have t: "try_block world_deploy_fails (Some 2) ?p = ?t"
    by (rule try_block_fail) (simp add: world_deploy_fails_def)
  have ts: "wa_status (inst ?t) = None"
    by (simp add: pending_block_sel st)
  note c = catch_block_fresh_sel [OF ts, of world_deploy_fails]
  show ?thesis
    unfolding r t calls_def c
    by (simp add: pending_block_sel getConditions_def instance_no_status_def webapp_meta_def
        world_deploy_fails_def)
qed


text \<open>
  Claim C9: on an instance without Condition entries, be the status absent or the
  conditions array empty, Reconcile takes an empty last Condition and goes on without
  faulting. The code at an instance whose status holds an empty conditions array: the
  read of observedGeneration at lines 71-72 indexes the array at -1 and reads a property
  of the undefined element, so the callback is rejected with a TypeError before anything
  else happens, in every world.
\<close>

theorem Reconcile_faults_on_empty_ledger:
  "Reconcile e instance_empty_ledger
     = \<lparr>outcome = Some TypeError, inst = instance_empty_ledger, ledger = [], trace = []\<rparr>"
  using Reconcile_throws_at_reads [of instance_empty_ledger "\<lparr>conditions = Some []\<rparr>" e]
  by (simp add: getConditions_def instance_empty_ledger_def)

text \<open>
  Claim C1, as the code has it. A second invocation of Reconcile with the generation of
  the first one is a no-op when it sees what the first one left:
  a status the first invocation patched or, when the first invocation was itself a
  no-op, the same status. The instance and its ledger stay as they are, and the run
  issues no status patch and no event, only the debug log line. The guard is false
  there: after a patch the last Condition is the Pending one, or the Ready one for that
  generation; after a no-op the guard has the inputs it had.
\<close>

theorem Reconcile_second_call_skips:
  assumes "read_generation i2 = read_generation i"
    and "(\<exists>nm ns st. PatchStatus nm ns (Some st) \<in> set (trace (Reconcile e1 i))
                     \<and> wa_status i2 = Some st)
         \<or> (trace (Reconcile e1 i) = [LogDebug] \<and> wa_status i2 = wa_status i)"
  shows "Reconcile e2 i2
           = \<lparr>outcome = None, inst = i2, ledger = getConditions i2, trace = [LogDebug]\<rparr>"
  using assms(2)
proof
  assume "\<exists>nm ns st. PatchStatus nm ns (Some st) \<in> set (trace (Reconcile e1 i))
                     \<and> wa_status i2 = Some st"
  then obtain nm ns st
    where patched: "PatchStatus nm ns (Some st) \<in> set (trace (Reconcile e1 i))"
      and seen: "wa_status i2 = Some st"
    by blast
  from Reconcile_patches [OF patched refl]
  obtain xs where xs: "conditions st = Some xs" "xs \<noteq> []"
    and blocked: "status (last xs) = ''Pending''
                  \<or> observedGeneration (last xs) = read_generation i"
    by (auto simp add: Pending_condition_def Ready_condition_def)
  note rd = reads_nonempty(1,2) [OF seen xs]
  show ?thesis
    using Reconcile_skips [OF rd, of e2] blocked assms(1) by auto
next
  assume same: "trace (Reconcile e1 i) = [LogDebug] \<and> wa_status i2 = wa_status i"
  then obtain og lc where "read_observedGeneration i = Inr og"
    and "read_latestCondition i = Inr lc"
    and guard: "read_generation i = og
                \<or> status lc = ''Pending'' \<or> reason lc = ''Processing''"
    using Reconcile_skipped [of e1 i] by blast
  then have rd: "read_observedGeneration i2 = Inr og" "read_latestCondition i2 = Inr lc"
    using same reads_depend_on_status [of i2 i] by simp_all
  show ?thesis
    using Reconcile_skips [OF rd, of e2] guard assms(1) by simp
qed

text \<open>
  The theorem after a successful first cycle, where the second invocation is for the
  re-applied object: admission has refreshed its annotation, so its metadata differs,
  its generation is the same and its status is that of the last patch. And after a
  first invocation that found the deployment in flight. The second invocation runs in
  a world where the generator would fail.
\<close>

theorem Reconcile_second_call_skips_witness:
  "metadata instance_reapplied \<noteq> metadata instance_gen2
   \<and> read_generation instance_reapplied = read_generation instance_gen2
   \<and> PatchStatus (Some ''webapp-light-en'') (Some ''webapps'')
         (wa_status instance_reapplied)
       \<in> set (trace (Reconcile world_ok instance_gen2))
   \<and> Reconcile world_deploy_fails instance_reapplied
       = \<lparr>outcome = None, inst = instance_reapplied,
          ledger = [Ready_1, Pending_condition world_ok (Some 2),
                    Ready_condition world_ok (Some 2)],
          trace = [LogDebug]\<rparr>
   \<and> trace (Reconcile world_ok instance_pending) = [LogDebug]
   \<and> Reconcile world_deploy_fails instance_pending
       = \<lparr>outcome = None, inst = instance_pending, ledger = [Ready_1, Pending_2],
          trace = [LogDebug]\<rparr>"
proof -
  let ?st = "\<lparr>conditions = Some [Ready_1, Pending_condition world_ok (Some 2),
                                   Ready_condition world_ok (Some 2)]\<rparr>"
  have st: "wa_status instance_reapplied = Some ?st"
    by (simp add: instance_reapplied_def)
  have not_pending: "\<not> last_status_is_Pending (getConditions instance_gen2)"
    by (simp add: last_status_is_Pending_iff getConditions_def instance_gen2_def Ready_1_def)
  have meta: "metadata instance_reapplied
      = Some (webapp_meta\<lparr>annotations :=
          (annotations webapp_meta)(''pepr.dev/latest-admission-pass''
             \<mapsto> ''2025-06-01T12:00:00.000Z'')\<rparr>)"
    using not_pending
    by (simp add: instance_reapplied_def WebApp_Mutate_def SetAnnotation_def instance_gen2_def)
  have differs: "metadata instance_reapplied \<noteq> metadata instance_gen2"
    unfolding meta
    by (simp add: instance_gen2_def webapp_meta_def)
  have gen: "read_generation instance_reapplied = read_generation instance_gen2"
    unfolding read_generation_def meta by (simp add: instance_gen2_def)
  have rd: "read_observedGeneration instance_gen2 = Inr (Some 1)"
    "read_latestCondition instance_gen2 = Inr Ready_1"
    using reads_nonempty(1,2) [of instance_gen2 "\<lparr>conditions = Some [Ready_1]\<rparr>" "[Ready_1]"]
    by (simp_all add: instance_gen2_def Ready_1_def)
  have "Reconcile world_ok instance_gen2
          = try_block world_ok (Some 2) (pending_block world_ok (Some 2) instance_gen2)"
    using Reconcile_runs(1) [OF rd, of webapp_meta world_ok]
    by (simp add: instance_gen2_def webapp_meta_def Ready_1_def world_ok_def)
  then have first: "PatchStatus (Some ''webapp-light-en'') (Some ''webapps'') (Some ?st)
      \<in> set (trace (Reconcile world_ok instance_gen2))"
    by (simp only:)
      (simp add: try_block_ok_sel pending_block_sel getConditions_def instance_gen2_def
        webapp_meta_def world_ok_def)
  have seen: "(\<exists>nm ns st. PatchStatus nm ns (Some st)
                       \<in> set (trace (Reconcile world_ok instance_gen2))
                     \<and> wa_status instance_reapplied = Some st)
         \<or> (trace (Reconcile world_ok instance_gen2) = [LogDebug]
             \<and> wa_status instance_reapplied = wa_status instance_gen2)"
    using first st by auto
  have after_deploy: "Reconcile world_deploy_fails instance_reapplied
       = \<lparr>outcome = None, inst = instance_reapplied,
          ledger = [Ready_1, Pending_condition world_ok (Some 2),
                    Ready_condition world_ok (Some 2)],
          trace = [LogDebug]\<rparr>"
    using Reconcile_second_call_skips [OF gen seen, of world_deploy_fails] st
    by (simp add: getConditions_def)
  have rdp: "read_observedGeneration instance_pending = Inr (Some 2)"
    "read_latestCondition instance_pending = Inr Pending_2"
    using reads_nonempty(1,2) [of instance_pending "\<lparr>conditions = Some [Ready_1, Pending_2]\<rparr>"
        "[Ready_1, Pending_2]"]
    by (simp_all add: instance_pending_def Pending_2_def)
  have skipped: "trace (Reconcile world_ok instance_pending) = [LogDebug]"
    using Reconcile_skips [OF rdp, of world_ok] by (simp add: Pending_2_def)
  then have again: "(\<exists>nm ns st. PatchStatus nm ns (Some st)
                       \<in> set (trace (Reconcile world_ok instance_pending))
                     \<and> wa_status instance_pending = Some st)
         \<or> (trace (Reconcile world_ok instance_pending) = [LogDebug]
             \<and> wa_status instance_pending = wa_status instance_pending)"
    by simp
  have after_skip: "Reconcile world_deploy_fails instance_pending
       = \<lparr>outcome = None, inst = instance_pending, ledger = [Ready_1, Pending_2],
          trace = [LogDebug]\<rparr>"
    using Reconcile_second_call_skips [OF refl again, of world_deploy_fails]
    by (simp add: getConditions_def instance_pending_def)
  from differs gen first st after_deploy skipped after_skip show ?thesis
    by simp
qed

text \<open>
  Claim C1 as stated fails. The first invocation on an instance without status pushes
  onto a new array and leaves the instance object as it was: same generation, still no
  Condition. A second invocation on it, with the identical generation and last
  Condition, patches the status and writes the events again.
\<close>

theorem Reconcile_identical_input_deploys_again:
  "inst (Reconcile world_ok instance_no_status) = instance_no_status
   \<and> calls (Reconcile world_ok (inst (Reconcile world_ok instance_no_status)))
       = [PatchStatus (Some ''webapp-light-en'') (Some ''webapps'')
            (Some \<lparr>conditions = Some [Pending_condition world_ok (Some 2)]\<rparr>),
          WriteEvent (Some ''webapp-light-en'') ''Pending'',
          DeployCall,
          PatchStatus (Some ''webapp-light-en'') (Some ''webapps'')
            (Some \<lparr>conditions = Some [Pending_condition world_ok (Some 2),
                                      Ready_condition world_ok (Some 2)]\<rparr>),
          WriteEvent (Some ''webapp-light-en'') ''Reconciled'']"
proof -
  have st: "wa_status instance_no_status = None"
    by (simp add: instance_no_status_def)
  have r: "Reconcile world_ok instance_no_status
          = try_block world_ok (Some 2) (pending_block world_ok (Some 2) instance_no_status)"
    using Reconcile_runs(1) [OF reads_no_status(1,2) [OF st], of webapp_meta world_ok]
    by (simp add: instance_no_status_def webapp_meta_def empty_condition_def world_ok_def)
  have same: "inst (Reconcile world_ok instance_no_status) = instance_no_status"
    unfolding r
    by (simp add: try_block_def pending_block_def step_sel push_def Let_def
        instance_no_status_def world_ok_def)
  have again: "calls (Reconcile world_ok instance_no_status)
       = [PatchStatus (Some ''webapp-light-en'') (Some ''webapps'')
            (Some \<lparr>conditions = Some [Pending_condition world_ok (Some 2)]\<rparr>),
          WriteEvent (Some ''webapp-light-en'') ''Pending'',
          DeployCall,
          PatchStatus (Some ''webapp-light-en'') (Some ''webapps'')
            (Some \<lparr>conditions = Some [Pending_condition world_ok (Some 2),
                                      Ready_condition world_ok (Some 2)]\<rparr>),
          WriteEvent (Some ''webapp-light-en'') ''Reconciled'']"
    unfolding r
    by (simp add: calls_def try_block_ok_sel pending_block_sel getConditions_def
        instance_no_status_def webapp_meta_def world_ok_def)
  show ?thesis
    using same again by simp
qed

end
